theory Spec2Isabelle
  imports Main "HOL-Library.Word"
begin

section \<open>The binary space partitioning tree of fastlib/tree/spacetree.h\<close>

text \<open>
  The class template \<open>BinarySpaceTree\<close> is embedded as a datatype
  with one constructor holding the six private members in their declaration order read as
  \<open>bound_, left_, right_, begin_, count_, stat_\<close> (a name cannot end in an underscore
  here, so the selectors are \<open>bound_m\<close> to \<open>stat_m\<close>). A node owns its children exclusively
  (the destructor deletes them, copying is forbidden), so a child pointer is embedded as the
  pointed-to subtree itself. A pointer is null, poisoned (the value that
  \<open>DEBUG_POISON_PTR\<close> stores in debug builds) or the address of an owned node.

  \<open>index_t\<close> is declared outside this file; \<open>Print\<close> formats it with \<open>%d\<close>, so it
  is the machine's \<open>int\<close>: a 32-bit word read in two's complement. Indices are compared
  with the signed orders \<open><=s\<close> and \<open><s\<close>. The two sums inside the debug assertions of
  \<open>set_children\<close> wrap around, as signed addition does on the machine.
\<close>

type_synonym index_t = "32 word"

datatype 'n ptr = Null | Poison | Ptr 'n

datatype ('b, 's) BinarySpaceTree =
  Node (bound_m: 'b)
       (left_m: "('b, 's) BinarySpaceTree ptr")
       (right_m: "('b, 's) BinarySpaceTree ptr")
       (begin_m: index_t)
       (count_m: index_t)
       (stat_m: 's)

text \<open>
  Every way in which a call can fail to return: a failed \<open>DEBUG_ASSERT\<close>, the dereference
  of a null or poisoned pointer, a read that the stream cannot serve, and the failure of
  \<open>AssertMagic\<close>.
\<close>

datatype error = AssertionFailed | BadPointer | StreamError | FormatMismatch

text \<open>
  Modelled from the spec: the macros \<open>DEBUG_ONLY\<close>, \<open>DEBUG_ASSERT\<close>,
  \<open>DEBUG_POISON_PTR\<close> and the constant \<open>BIG_BAD_NUMBER\<close> come from base/cc.h, which
  is not part of the sources at hand. The spec describes them as debug-only poisoning of
  uninitialized fields and assertion-based checks gated by the build mode. The build mode
  and the sentinel are parameters of every operation that uses them.
\<close>

record build =
  DEBUG :: bool
  BIG_BAD_NUMBER :: index_t

definition DEBUG_POISON_PTR :: "build \<Rightarrow> 'n ptr \<Rightarrow> 'n ptr" where
  "DEBUG_POISON_PTR cfg p = (if DEBUG cfg then Poison else p)"

text \<open>
  Modelled from the spec: the Statistic capability (statistic.h is not part of the sources
  at hand). Its two \<open>Init\<close> overloads are the spec's initFromRange(dataset, begin, count)
  and initFromChildren(dataset, begin, count, leftStat, rightStat). The second takes the two
  statistics by reference. \<open>set_children\<close> forms these references through the child
  pointers without a test, so a reference may dangle (\<open>None\<close> below) where a pointer is
  null or poisoned. What the combine form does then is up to the Statistic:
  \<open>initFromDangling\<close> is the statistic it computes if it reads no dangling reference, and
  \<open>None\<close> if it reads one.
\<close>

record ('d, 's) Statistic =
  initFromRange :: "'d \<Rightarrow> index_t \<Rightarrow> index_t \<Rightarrow> 's"
  initFromChildren :: "'d \<Rightarrow> index_t \<Rightarrow> index_t \<Rightarrow> 's \<Rightarrow> 's \<Rightarrow> 's"
  initFromDangling :: "'d \<Rightarrow> index_t \<Rightarrow> index_t \<Rightarrow> 's option \<Rightarrow> 's option \<Rightarrow> 's option"

subsection \<open>The serialization stream\<close>

text \<open>
  Modelled from the spec: the Serializer and Deserializer (file/serialize.h is not part of
  the sources at hand) and the encode/decode capability of the Bound and Dataset types.
  A stream is the sequence of the values put so far. A serializer appends; a deserializer
  holds the unread rest, and a read that finds something else than what it asks for fails.
  A Bound or Dataset writes a sequence of items of its own; its decoder returns the decoded
  value and the number of items it has read.
\<close>

datatype 'x item = Index index_t | Flag bool | Magic "32 word" | Raw 'x

type_synonym 'x stream = "'x item list"

record ('a, 'x) Serializable =
  encode :: "'a \<Rightarrow> 'x stream"
  decode :: "'x stream \<Rightarrow> ('a \<times> nat) option"

definition Put_index :: "index_t \<Rightarrow> 'x stream \<Rightarrow> 'x stream" where
  "Put_index v s = s @ [Index v]"

definition Put_bool :: "bool \<Rightarrow> 'x stream \<Rightarrow> 'x stream" where
  "Put_bool v s = s @ [Flag v]"

definition PutMagic :: "32 word \<Rightarrow> 'x stream \<Rightarrow> 'x stream" where
  "PutMagic m s = s @ [Magic m]"

definition Put_object :: "('a, 'x) Serializable \<Rightarrow> 'a \<Rightarrow> 'x stream \<Rightarrow> 'x stream" where
  "Put_object cap v s = s @ encode cap v"

definition Get_index :: "'x stream \<Rightarrow> error + (index_t \<times> 'x stream)" where
  "Get_index s = (case s of Index v # rest \<Rightarrow> Inr (v, rest) | _ \<Rightarrow> Inl StreamError)"

definition Get_bool :: "'x stream \<Rightarrow> error + (bool \<times> 'x stream)" where
  "Get_bool s = (case s of Flag v # rest \<Rightarrow> Inr (v, rest) | _ \<Rightarrow> Inl StreamError)"

text \<open>
  Modelled from the spec: \<open>AssertMagic\<close> of the Deserializer (file/serialize.h is not
  part of the sources at hand) is the spec's assertTag(tag), which fails with a
  format-mismatch error if the stored tag differs. A stream that does not start with a tag
  at all fails in the same way.
\<close>

definition AssertMagic :: "32 word \<Rightarrow> 'x stream \<Rightarrow> error + 'x stream" where
  "AssertMagic m s =
     (case s of Magic m' # rest \<Rightarrow> if m' = m then Inr rest else Inl FormatMismatch
              | _ \<Rightarrow> Inl FormatMismatch)"

definition Get_object :: "('a, 'x) Serializable \<Rightarrow> 'x stream \<Rightarrow> error + ('a \<times> 'x stream)" where
  "Get_object cap s =
     (case decode cap s of None \<Rightarrow> Inl StreamError | Some (v, n) \<Rightarrow> Inr (v, drop n s))"

text \<open>
  The three summands of the format tag: \<open>file::CreateMagic("spacetree")\<close>,
  \<open>MAGIC_NUMBER(TDataset)\<close> and \<open>MAGIC_NUMBER(TBound)\<close>. Their values are parameters;
  they are taken as 32-bit words, whose sum wraps around.
\<close>

record magics =
  magic_spacetree :: "32 word"
  magic_TDataset :: "32 word"
  magic_TBound :: "32 word"

definition format_tag :: "magics \<Rightarrow> 32 word" where
  "format_tag mg = magic_spacetree mg + magic_TDataset mg + magic_TBound mg"

subsection \<open>Construction\<close>

text \<open>
  The constructor. Its argument is the content of the storage the node is built in, with the
  default-constructed bound and statistic: a release build leaves the other four members as
  they are, a debug build overwrites them.
\<close>

definition BinarySpaceTree_ctor ::
  "build \<Rightarrow> ('b, 's) BinarySpaceTree \<Rightarrow> ('b, 's) BinarySpaceTree" where
  "BinarySpaceTree_ctor cfg mem =
     (if DEBUG cfg
      then Node (bound_m mem) Poison Poison (BIG_BAD_NUMBER cfg) (BIG_BAD_NUMBER cfg) (stat_m mem)
      else mem)"

definition Init ::
  "build \<Rightarrow> ('b, 's) BinarySpaceTree \<Rightarrow> index_t \<Rightarrow> index_t \<Rightarrow> error + ('b, 's) BinarySpaceTree" where
  "Init cfg this begin_in count_in =
     (if DEBUG cfg \<and> \<not> (begin_m this = BIG_BAD_NUMBER cfg) then Inl AssertionFailed
      else Inr (Node (bound_m this)
                     (DEBUG_POISON_PTR cfg (left_m this))
                     (DEBUG_POISON_PTR cfg (right_m this))
                     begin_in count_in (stat_m this)))"

definition is_leaf :: "('b, 's) BinarySpaceTree \<Rightarrow> bool" where
  "is_leaf this = (left_m this = Null)"

text \<open>
  The reference \<open>left_->stat_\<close> or \<open>right_->stat_\<close> that \<open>set_children\<close> hands to the
  Statistic, and the call of the combine form on two such references.
\<close>

definition stat_ref :: "('b, 's) BinarySpaceTree ptr \<Rightarrow> 's option" where
  "stat_ref p = (case p of Ptr n \<Rightarrow> Some (stat_m n) | _ \<Rightarrow> None)"

definition stat_Init_children ::
  "('d, 's) Statistic \<Rightarrow> 'd \<Rightarrow> index_t \<Rightarrow> index_t \<Rightarrow> 's option \<Rightarrow> 's option \<Rightarrow> error + 's" where
  "stat_Init_children sc data begin_in count_in left_stat right_stat =
     (case (left_stat, right_stat) of
        (Some sl, Some sr) \<Rightarrow> Inr (initFromChildren sc data begin_in count_in sl sr)
      | _ \<Rightarrow>
          (case initFromDangling sc data begin_in count_in left_stat right_stat of
             None \<Rightarrow> Inl BadPointer
           | Some st \<Rightarrow> Inr st))"

text \<open>
  \<open>set_children\<close>. In the branch of a node that is not a leaf, the Statistic is called
  first; the three assertions of a debug build then read the begin and count of both
  children through the two pointers.
\<close>

definition set_children ::
  "build \<Rightarrow> ('d, 's) Statistic \<Rightarrow> 'd \<Rightarrow> ('b, 's) BinarySpaceTree \<Rightarrow>
   ('b, 's) BinarySpaceTree ptr \<Rightarrow> ('b, 's) BinarySpaceTree ptr \<Rightarrow>
   error + ('b, 's) BinarySpaceTree" where
  "set_children cfg sc data this left_in right_in =
     (let this1 = Node (bound_m this) left_in right_in (begin_m this) (count_m this) (stat_m this)
      in if \<not> is_leaf this1 then
           (case stat_Init_children sc data (begin_m this1) (count_m this1)
                   (stat_ref left_in) (stat_ref right_in) of
              Inl e \<Rightarrow> Inl e
            | Inr st \<Rightarrow>
                (let this2 = Node (bound_m this1) left_in right_in (begin_m this1) (count_m this1) st
                 in if DEBUG cfg then
                      (case left_in of
                         Ptr l \<Rightarrow>
                           (case right_in of
                              Ptr r \<Rightarrow>
                                if \<not> (count_m this2 = count_m l + count_m r)
                                  then Inl AssertionFailed
                                else if \<not> (begin_m l = begin_m this2)
                                  then Inl AssertionFailed
                                else if \<not> (begin_m r = begin_m this2 + count_m l)
                                  then Inl AssertionFailed
                                else Inr this2
                            | _ \<Rightarrow> Inl BadPointer)
                       | _ \<Rightarrow> Inl BadPointer)
                    else Inr this2))
         else Inr (Node (bound_m this1) left_in right_in (begin_m this1) (count_m this1)
                     (initFromRange sc data (begin_m this1) (count_m this1))))"

subsection \<open>Lookup by begin and count\<close>

text \<open>
  The two overloads have the same body; the const one returns a pointer to const. The
  returned pointer is embedded as the node it points to, \<open>NULL\<close> as \<open>None\<close>. The
  source's \<open>begin_q >= begin_\<close> is written \<open>begin_ <=s begin_q\<close>.
\<close>

fun FindByBeginCount_const ::
  "build \<Rightarrow> ('b, 's) BinarySpaceTree \<Rightarrow> index_t \<Rightarrow> index_t \<Rightarrow>
   error + ('b, 's) BinarySpaceTree option" where
  "FindByBeginCount_const cfg (Node b l r bg c st) begin_q count_q =
     (if DEBUG cfg \<and> \<not> (bg <=s begin_q) then Inl AssertionFailed
      else if DEBUG cfg \<and> \<not> (count_q <=s c) then Inl AssertionFailed
      else if bg = begin_q \<and> c = count_q then Inr (Some (Node b l r bg c st))
      else if is_leaf (Node b l r bg c st) then Inr None
      else (case r of
              Ptr rn \<Rightarrow>
                if begin_q <s begin_m rn
                then (case l of
                        Ptr ln \<Rightarrow> FindByBeginCount_const cfg ln begin_q count_q
                      | _ \<Rightarrow> Inl BadPointer)
                else FindByBeginCount_const cfg rn begin_q count_q
            | _ \<Rightarrow> Inl BadPointer))"

fun FindByBeginCount ::
  "build \<Rightarrow> ('b, 's) BinarySpaceTree \<Rightarrow> index_t \<Rightarrow> index_t \<Rightarrow>
   error + ('b, 's) BinarySpaceTree option" where
  "FindByBeginCount cfg (Node b l r bg c st) begin_q count_q =
     (if DEBUG cfg \<and> \<not> (bg <=s begin_q) then Inl AssertionFailed
      else if DEBUG cfg \<and> \<not> (count_q <=s c) then Inl AssertionFailed
      else if bg = begin_q \<and> c = count_q then Inr (Some (Node b l r bg c st))
      else if is_leaf (Node b l r bg c st) then Inr None
      else (case r of
              Ptr rn \<Rightarrow>
                if begin_q <s begin_m rn
                then (case l of
                        Ptr ln \<Rightarrow> FindByBeginCount cfg ln begin_q count_q
                      | _ \<Rightarrow> Inl BadPointer)
                else FindByBeginCount cfg rn begin_q count_q
            | _ \<Rightarrow> Inl BadPointer))"

subsection \<open>Structural serialization\<close>

fun Serialize ::
  "('b, 'x) Serializable \<Rightarrow> ('b, 's) BinarySpaceTree \<Rightarrow> 'x stream \<Rightarrow> error + 'x stream" where
  "Serialize bc (Node b l r bg c st) s =
     (let s1 = Put_object bc b s;
          s2 = Put_index bg s1;
          s3 = Put_index c s2;
          children = (\<not> is_leaf (Node b l r bg c st));
          s4 = Put_bool children s3
      in if children then
           (case l of
              Ptr ln \<Rightarrow>
                (case Serialize bc ln s4 of
                   Inl e \<Rightarrow> Inl e
                 | Inr s5 \<Rightarrow>
                     (case r of
                        Ptr rn \<Rightarrow> Serialize bc rn s5
                      | _ \<Rightarrow> Inl BadPointer))
            | _ \<Rightarrow> Inl BadPointer)
         else Inr s4)"

text \<open>
  \<open>Deserialize\<close> threads the deserializer through its two recursive calls. The argument
  \<open>mem\<close> is the storage that \<open>new BinarySpaceTree()\<close> constructs a child in.
\<close>

function Deserialize ::
  "build \<Rightarrow> ('d, 's) Statistic \<Rightarrow> ('b, 'x) Serializable \<Rightarrow> ('b, 's) BinarySpaceTree \<Rightarrow>
   'd \<Rightarrow> ('b, 's) BinarySpaceTree \<Rightarrow> 'x stream \<Rightarrow>
   error + (('b, 's) BinarySpaceTree \<times> 'x stream)" where
  "Deserialize cfg sc bc mem data this s =
     (if DEBUG cfg \<and> \<not> (begin_m this = BIG_BAD_NUMBER cfg) then Inl AssertionFailed
      else
        (case Get_object bc s of
           Inl e \<Rightarrow> Inl e
         | Inr (b, s1) \<Rightarrow>
        (case Get_index s1 of
           Inl e \<Rightarrow> Inl e
         | Inr (bg, s2) \<Rightarrow>
        (case Get_index s2 of
           Inl e \<Rightarrow> Inl e
         | Inr (c, s3) \<Rightarrow>
        (case Get_bool s3 of
           Inl e \<Rightarrow> Inl e
         | Inr (children, s4) \<Rightarrow>
        (let this1 = Node b (left_m this) (right_m this) bg c (stat_m this)
         in if children then
              (case Deserialize cfg sc bc mem data (BinarySpaceTree_ctor cfg mem) s4 of
                 Inl e \<Rightarrow> Inl e
               | Inr (l, s5) \<Rightarrow>
              (case Deserialize cfg sc bc mem data (BinarySpaceTree_ctor cfg mem) s5 of
                 Inl e \<Rightarrow> Inl e
               | Inr (r, s6) \<Rightarrow>
              (case set_children cfg sc data this1 (Ptr l) (Ptr r) of
                 Inl e \<Rightarrow> Inl e
               | Inr this2 \<Rightarrow> Inr (this2, s6))))
            else
              (case set_children cfg sc data this1 Null Null of
                 Inl e \<Rightarrow> Inl e
               | Inr this2 \<Rightarrow> Inr (this2, s4))))))))"
  by pat_completeness auto

lemma Get_index_length: "Get_index s = Inr (v, s') \<Longrightarrow> length s' < length s"
  by (auto simp: Get_index_def split: list.splits item.splits)

lemma Get_bool_length: "Get_bool s = Inr (v, s') \<Longrightarrow> length s' < length s"
  by (auto simp: Get_bool_def split: list.splits item.splits)

lemma Get_object_length: "Get_object cap s = Inr (v, s') \<Longrightarrow> length s' \<le> length s"
  by (auto simp: Get_object_def split: option.splits)

text \<open>Every successful call leaves a strictly shorter unread rest: it reads three items at least.\<close>

lemma Deserialize_dom_length:
  "Deserialize_dom (cfg, sc, bc, mem, data, this, s) \<Longrightarrow>
   Deserialize cfg sc bc mem data this s = Inr (t, s') \<Longrightarrow> length s' < length s"
proof (induction cfg sc bc mem data this s arbitrary: t s' rule: Deserialize.pinduct)
  case (1 cfg sc bc mem data this s)
  note eq = "1.prems"[unfolded Deserialize.psimps[OF "1.hyps"]]
  then have ok: "\<not> (DEBUG cfg \<and> \<not> (begin_m this = BIG_BAD_NUMBER cfg))"
    by (auto split: if_splits)
  from eq ok obtain b s1 where g1: "Get_object bc s = Inr (b, s1)"
    by (auto split: sum.splits)
  from eq ok g1 obtain bg s2 where g2: "Get_index s1 = Inr (bg, s2)"
    by (auto split: sum.splits)
  from eq ok g1 g2 obtain c s3 where g3: "Get_index s2 = Inr (c, s3)"
    by (auto split: sum.splits)
  from eq ok g1 g2 g3 obtain children s4 where g4: "Get_bool s3 = Inr (children, s4)"
    by (auto split: sum.splits)
  have len4: "length s4 < length s"
    using Get_object_length[OF g1] Get_index_length[OF g2] Get_index_length[OF g3]
      Get_bool_length[OF g4] by linarith
  show ?case
  proof (cases children)
    case False
    with eq ok g1 g2 g3 g4 have "s' = s4"
      by (auto simp: Let_def split: sum.splits)
    with len4 show ?thesis by simp
  next
    case True
    with eq ok g1 g2 g3 g4 obtain l s5 where
      d1: "Deserialize cfg sc bc mem data (BinarySpaceTree_ctor cfg mem) s4 = Inr (l, s5)"
      by (auto simp: Let_def split: sum.splits)
    with True eq ok g1 g2 g3 g4 obtain r where
      d2: "Deserialize cfg sc bc mem data (BinarySpaceTree_ctor cfg mem) s5 = Inr (r, s')"
      by (auto simp: Let_def split: sum.splits)
    have "length s5 < length s4"
      using "1.IH"(1) ok g1 g2 g3 g4 True d1 by auto
    moreover have "length s' < length s5"
      using "1.IH"(2) ok g1 g2 g3 g4 True d1 d2 by auto
    ultimately show ?thesis using len4 by linarith
  qed
qed

termination Deserialize
  apply (relation "measure (\<lambda>(cfg, sc, bc, mem, data, this, s). length s)")
    apply simp
   apply (auto dest!: Get_index_length Get_bool_length Get_object_length Deserialize_dom_length)
  done

declare Deserialize.simps [simp del]

subsection \<open>Whole-tree serialization\<close>

definition SerializeAll ::
  "magics \<Rightarrow> ('d, 'x) Serializable \<Rightarrow> ('b, 'x) Serializable \<Rightarrow> 'd \<Rightarrow>
   ('b, 's) BinarySpaceTree \<Rightarrow> 'x stream \<Rightarrow> error + 'x stream" where
  "SerializeAll mg dc bc data this s =
     (let s1 = PutMagic (format_tag mg) s;
          s2 = Put_object dc data s1
      in Serialize bc this s2)"

definition DeserializeAll ::
  "build \<Rightarrow> magics \<Rightarrow> ('d, 's) Statistic \<Rightarrow> ('d, 'x) Serializable \<Rightarrow> ('b, 'x) Serializable \<Rightarrow>
   ('b, 's) BinarySpaceTree \<Rightarrow> ('b, 's) BinarySpaceTree \<Rightarrow> 'x stream \<Rightarrow>
   error + ('d \<times> ('b, 's) BinarySpaceTree \<times> 'x stream)" where
  "DeserializeAll cfg mg sc dc bc mem this s =
     (case AssertMagic (format_tag mg) s of
        Inl e \<Rightarrow> Inl e
      | Inr s1 \<Rightarrow>
     (case Get_object dc s1 of
        Inl e \<Rightarrow> Inl e
      | Inr (data, s2) \<Rightarrow>
     (case Deserialize cfg sc bc mem data this s2 of
        Inl e \<Rightarrow> Inl e
      | Inr (this', s3) \<Rightarrow> Inr (data, this', s3))))"

subsection \<open>Trees, validity and the properties to compare with\<close>

text \<open>The nodes of a tree: the node itself, then those below its left and its right child.\<close>

fun nodes :: "('b, 's) BinarySpaceTree \<Rightarrow> ('b, 's) BinarySpaceTree list" where
  "nodes (Node b l r bg c st) =
     Node b l r bg c st
       # (case l of Ptr ln \<Rightarrow> nodes ln | _ \<Rightarrow> [])
       @ (case r of Ptr rn \<Rightarrow> nodes rn | _ \<Rightarrow> [])"

text \<open>
  A fully constructed tree: every node has both children or none (invariant 1), no pointer is
  left poisoned.
\<close>

fun fully_constructed :: "('b, 's) BinarySpaceTree \<Rightarrow> bool" where
  "fully_constructed (Node b Null Null bg c st) = True"
| "fully_constructed (Node b (Ptr l) (Ptr r) bg c st) =
     (fully_constructed l \<and> fully_constructed r)"
| "fully_constructed (Node b l r bg c st) = False"

text \<open>
  A valid tree: fully constructed, and the children of every internal node partition its
  range contiguously (invariant 2), with the sums of \<open>index_t\<close> that the assertions of
  \<open>set_children\<close> compute.
\<close>

fun valid :: "('b, 's) BinarySpaceTree \<Rightarrow> bool" where
  "valid (Node b Null Null bg c st) = True"
| "valid (Node b (Ptr l) (Ptr r) bg c st) =
     (c = count_m l + count_m r \<and> begin_m l = bg \<and> begin_m r = bg + count_m l
      \<and> valid l \<and> valid r)"
| "valid (Node b l r bg c st) = False"

definition has_range :: "index_t \<Rightarrow> index_t \<Rightarrow> ('b, 's) BinarySpaceTree \<Rightarrow> bool" where
  "has_range begin_q count_q n = (begin_m n = begin_q \<and> count_m n = count_q)"

text \<open>
  The descent of the lookup as the specification words it: one binary decision per level,
  left if the queried begin is below the right child's begin, else right, down to a leaf.
\<close>

fun descent :: "('b, 's) BinarySpaceTree \<Rightarrow> index_t \<Rightarrow> ('b, 's) BinarySpaceTree list" where
  "descent (Node b (Ptr l) (Ptr r) bg c st) begin_q =
     Node b (Ptr l) (Ptr r) bg c st
       # (if begin_q <s begin_m r then descent l begin_q else descent r begin_q)"
| "descent (Node b l r bg c st) begin_q = [Node b l r bg c st]"

text \<open>
  The persisted structural stream as the specification words it: per node the bound, begin,
  count and the has-children flag, then, if the flag is set, the left and the right subtree.
\<close>

fun structural_stream :: "('b, 'x) Serializable \<Rightarrow> ('b, 's) BinarySpaceTree \<Rightarrow> 'x stream" where
  "structural_stream bc (Node b (Ptr l) (Ptr r) bg c st) =
     encode bc b @ [Index bg, Index c, Flag True]
       @ structural_stream bc l @ structural_stream bc r"
| "structural_stream bc (Node b l r bg c st) =
     encode bc b @ [Index bg, Index c, Flag False]"

text \<open>
  Direct bottom-up construction of the statistics as the specification words it: a leaf by the
  base form over its own range, an internal node by the combine form from the statistics of
  its two rebuilt children. Bound, begin, count and the shape are kept. (A node that has not
  both children counts as a leaf here; a valid tree has no such node.)
\<close>

fun bottom_up :: "('d, 's) Statistic \<Rightarrow> 'd \<Rightarrow> ('b, 's0) BinarySpaceTree \<Rightarrow> ('b, 's) BinarySpaceTree" where
  "bottom_up sc data (Node b (Ptr l) (Ptr r) bg c st) =
     (let l' = bottom_up sc data l; r' = bottom_up sc data r
      in Node b (Ptr l') (Ptr r') bg c (initFromChildren sc data bg c (stat_m l') (stat_m r')))"
| "bottom_up sc data (Node b l r bg c st) =
     Node b Null Null bg c (initFromRange sc data bg c)"

text \<open>The structure of a tree without its statistics.\<close>

definition shape :: "('b, 's) BinarySpaceTree \<Rightarrow> ('b, unit) BinarySpaceTree" where
  "shape t = map_BinarySpaceTree id (\<lambda>_. ()) t"

text \<open>A decoder that reads back what the encoder wrote, whatever follows it in the stream.\<close>

definition reads_back :: "('a, 'x) Serializable \<Rightarrow> bool" where
  "reads_back cap = (\<forall>v rest. decode cap (encode cap v @ rest) = Some (v, length (encode cap v)))"

text \<open>The two debug assertions at the head of \<open>FindByBeginCount\<close>, as a predicate of the node.\<close>

definition asserted :: "index_t \<Rightarrow> index_t \<Rightarrow> ('b, 's) BinarySpaceTree \<Rightarrow> bool" where
  "asserted begin_q count_q n = (begin_m n <=s begin_q \<and> count_q <=s count_m n)"

subsection \<open>Concrete builds, capabilities and trees\<close>

text \<open>
  A debug and a release build, a statistic that counts the points of a range (its combine
  form reads both children), a bound that is written as one raw item, and a small tree over
  the range \<open>[0, 8)\<close>.
\<close>

definition cfg_debug :: build where
  "cfg_debug = \<lparr>DEBUG = True, BIG_BAD_NUMBER = 2146666666\<rparr>"

definition cfg_release :: build where
  "cfg_release = \<lparr>DEBUG = False, BIG_BAD_NUMBER = 2146666666\<rparr>"

definition point_count :: "('d, int) Statistic" where
  "point_count = \<lparr>initFromRange = (\<lambda>d b c. sint c),
                   initFromChildren = (\<lambda>d b c l r. l + r),
                   initFromDangling = (\<lambda>d b c l r. None)\<rparr>"

text \<open>
  A statistic with no content, as the default \<open>EmptyStatistic\<close> of the class template:
  its combine form reads neither child.
\<close>

definition EmptyStatistic :: "('d, unit) Statistic" where
  "EmptyStatistic = \<lparr>initFromRange = (\<lambda>d b c. ()),
                      initFromChildren = (\<lambda>d b c l r. ()),
                      initFromDangling = (\<lambda>d b c l r. Some ())\<rparr>"

definition raw_decode :: "'a stream \<Rightarrow> ('a \<times> nat) option" where
  "raw_decode s = (case s of Raw v # rest \<Rightarrow> Some (v, 1) | _ \<Rightarrow> None)"

definition raw_codec :: "('a, 'a) Serializable" where
  "raw_codec = \<lparr>encode = (\<lambda>v. [Raw v]), decode = raw_decode\<rparr>"

definition leaf04 :: "(nat, int) BinarySpaceTree" where
  "leaf04 = Node 1 Null Null 0 4 4"

definition leaf44 :: "(nat, int) BinarySpaceTree" where
  "leaf44 = Node 2 Null Null 4 4 4"

definition root08 :: "(nat, int) BinarySpaceTree" where
  "root08 = Node 0 (Ptr leaf04) (Ptr leaf44) 0 8 8"

text \<open>
  Storage for a new node, the node a debug build makes of it by construction and
  \<open>Init(0, 8)\<close>, a node that \<open>set_children\<close> was called on before \<open>Init\<close>, a node
  with a right child only, and \<open>root08\<close> with stale statistics.
\<close>

definition storage :: "(nat, int) BinarySpaceTree" where
  "storage = Node 0 Null Null 0 0 0"

definition ranged08 :: "(nat, int) BinarySpaceTree" where
  "ranged08 = Node 0 Poison Poison 0 8 0"

definition unranged_leaf :: "(nat, int) BinarySpaceTree" where
  "unranged_leaf = Node 0 Null Null 2146666666 2146666666 2146666666"

definition lopsided08 :: "(nat, int) BinarySpaceTree" where
  "lopsided08 = Node 0 Null (Ptr leaf44) 0 8 8"

definition stale08 :: "(nat, int) BinarySpaceTree" where
  "stale08 = Node 0 (Ptr (Node 1 Null Null 0 4 0)) (Ptr (Node 2 Null Null 4 4 0)) 0 8 0"

text \<open>Two leaves whose counts add up to more than the largest \<open>index_t\<close>.\<close>

definition most :: "(nat, int) BinarySpaceTree" where
  "most = Node 1 Null Null 0 2147483647 2147483647"

definition last1 :: "(nat, int) BinarySpaceTree" where
  "last1 = Node 2 Null Null 2147483647 1 1"

text \<open>A node and a leaf of a tree with the empty statistic.\<close>

definition bare08 :: "(nat, unit) BinarySpaceTree" where
  "bare08 = Node 0 Poison Poison 0 8 ()"

definition bare04 :: "(nat, unit) BinarySpaceTree" where
  "bare04 = Node 1 Null Null 0 4 ()"

definition tags :: magics where
  "tags = \<lparr>magic_spacetree = 100, magic_TDataset = 10, magic_TBound = 1\<rparr>"

section \<open>Properties\<close>

subsection \<open>Auxiliary facts\<close>

lemma nodes_self: "n \<in> set (nodes n)"
  by (cases n) simp

lemma fully_constructed_induct [consumes 1, case_names Leaf Internal]:
  assumes "fully_constructed t"
    and "\<And>b bg c st. P (Node b Null Null bg c st)"
    and "\<And>b l r bg c st. fully_constructed l \<Longrightarrow> fully_constructed r \<Longrightarrow> P l \<Longrightarrow> P r \<Longrightarrow>
           P (Node b (Ptr l) (Ptr r) bg c st)"
  shows "P t"
  using assms by (induction t rule: fully_constructed.induct) simp_all

lemma valid_fully_constructed: "valid t \<Longrightarrow> fully_constructed t"
  by (induction t rule: valid.induct) auto

lemma FindByBeginCount_const_sound:
  "FindByBeginCount_const cfg t begin_q count_q = Inr (Some n) \<Longrightarrow>
   n \<in> set (nodes t) \<and> has_range begin_q count_q n"
proof (induction cfg t begin_q count_q rule: FindByBeginCount_const.induct)
  case (1 cfg b l r bg c st begin_q count_q)
  then show ?case
    by (auto simp: has_range_def is_leaf_def split: if_splits ptr.splits)
qed

lemma FindByBeginCount_same:
  "FindByBeginCount cfg t begin_q count_q = FindByBeginCount_const cfg t begin_q count_q"
proof (induction cfg t begin_q count_q rule: FindByBeginCount_const.induct)
  case (1 cfg b l r bg c st begin_q count_q)
  then show ?case
    by (auto simp: is_leaf_def split: ptr.splits)
qed

lemma descent_subset: "set (descent t begin_q) \<subseteq> set (nodes t)"
  by (induction t begin_q rule: descent.induct) auto

lemma descent_nonempty: "descent t begin_q \<noteq> []"
  by (induction t begin_q rule: descent.induct) auto

lemma descent_last_leaf: "fully_constructed t \<Longrightarrow> is_leaf (last (descent t begin_q))"
  by (induction t rule: fully_constructed_induct) (simp_all add: is_leaf_def descent_nonempty)

lemma find_absent:
  "\<forall>n \<in> set (nodes t). \<not> has_range begin_q count_q n \<Longrightarrow>
   find (has_range begin_q count_q) (descent t begin_q) = None"
  using descent_subset[of t begin_q] by (auto simp: find_None_iff)

text \<open>
  While no node on the descent has the queried range, the lookup walks the whole descent:
  it fails where a debug assertion fails and returns \<open>NULL\<close> at the leaf otherwise.
\<close>

lemma FindByBeginCount_const_absent:
  "fully_constructed t \<Longrightarrow> find (has_range begin_q count_q) (descent t begin_q) = None \<Longrightarrow>
   FindByBeginCount_const cfg t begin_q count_q
     = (if DEBUG cfg \<and> \<not> list_all (asserted begin_q count_q) (descent t begin_q)
        then Inl AssertionFailed else Inr None)"
proof (induction t rule: fully_constructed_induct)
  case (Leaf b bg c st)
  then show ?case by (auto simp: has_range_def is_leaf_def asserted_def split: if_splits)
next
  case (Internal b l r bg c st)
  then show ?case by (auto simp: has_range_def is_leaf_def asserted_def split: if_splits)
qed

lemma valid_induct [consumes 1, case_names Leaf Internal]:
  assumes "valid t"
    and "\<And>b bg c st. P (Node b Null Null bg c st)"
    and "\<And>b l r bg c st. valid l \<Longrightarrow> valid r \<Longrightarrow> c = count_m l + count_m r \<Longrightarrow>
           begin_m l = bg \<Longrightarrow> begin_m r = bg + count_m l \<Longrightarrow> P l \<Longrightarrow> P r \<Longrightarrow>
           P (Node b (Ptr l) (Ptr r) bg c st)"
  shows "P t"
  using assms by (induction t rule: valid.induct) simp_all

lemma fully_constructed_nodes:
  "fully_constructed t \<Longrightarrow> n \<in> set (nodes t) \<Longrightarrow> fully_constructed n"
  by (induction t rule: fully_constructed_induct) auto

lemma fully_constructed_children:
  "fully_constructed n \<Longrightarrow>
   (left_m n = Null \<and> right_m n = Null) \<or> (\<exists>l r. left_m n = Ptr l \<and> right_m n = Ptr r)"
  by (induction n rule: fully_constructed_induct) auto

text \<open>
  \<open>set_children\<close> with two children, with no left child, and with a left child only.
\<close>

lemma set_children_both:
  "set_children cfg sc data this (Ptr l) (Ptr r) =
     (if DEBUG cfg \<and> \<not> (count_m this = count_m l + count_m r \<and> begin_m l = begin_m this
                          \<and> begin_m r = begin_m this + count_m l)
      then Inl AssertionFailed
      else Inr (Node (bound_m this) (Ptr l) (Ptr r) (begin_m this) (count_m this)
                  (initFromChildren sc data (begin_m this) (count_m this) (stat_m l) (stat_m r))))"
  by (simp add: set_children_def stat_Init_children_def stat_ref_def is_leaf_def Let_def)

lemma set_children_none:
  "set_children cfg sc data this Null right_in =
     Inr (Node (bound_m this) Null right_in (begin_m this) (count_m this)
            (initFromRange sc data (begin_m this) (count_m this)))"
  by (simp add: set_children_def is_leaf_def Let_def)

lemma set_children_left_only:
  "set_children cfg sc data this (Ptr l) Null =
     (case initFromDangling sc data (begin_m this) (count_m this) (Some (stat_m l)) None of
        None \<Rightarrow> Inl BadPointer
      | Some st \<Rightarrow>
          if DEBUG cfg then Inl BadPointer
          else Inr (Node (bound_m this) (Ptr l) Null (begin_m this) (count_m this) st))"
  by (simp add: set_children_def stat_Init_children_def stat_ref_def is_leaf_def Let_def
      split: option.splits)

text \<open>What a successful \<open>Deserialize\<close> has read and done.\<close>

lemma Deserialize_InrE [consumes 1]:
  assumes "Deserialize cfg sc bc mem data this s = Inr (t, s')"
  obtains (Read) b s1 bg s2 c s3 children s4 where
    "\<not> (DEBUG cfg \<and> \<not> (begin_m this = BIG_BAD_NUMBER cfg))"
    "Get_object bc s = Inr (b, s1)" "Get_index s1 = Inr (bg, s2)"
    "Get_index s2 = Inr (c, s3)" "Get_bool s3 = Inr (children, s4)"
    "children \<Longrightarrow> \<exists>l s5 r.
        Deserialize cfg sc bc mem data (BinarySpaceTree_ctor cfg mem) s4 = Inr (l, s5)
        \<and> Deserialize cfg sc bc mem data (BinarySpaceTree_ctor cfg mem) s5 = Inr (r, s')
        \<and> set_children cfg sc data (Node b (left_m this) (right_m this) bg c (stat_m this))
              (Ptr l) (Ptr r) = Inr t"
    "\<not> children \<Longrightarrow> s' = s4
        \<and> set_children cfg sc data (Node b (left_m this) (right_m this) bg c (stat_m this))
              Null Null = Inr t"
proof -
  note eq = assms[unfolded Deserialize.simps[of cfg sc bc mem data this s]]
  then have ok: "\<not> (DEBUG cfg \<and> \<not> (begin_m this = BIG_BAD_NUMBER cfg))"
    by (auto split: if_splits)
  from eq ok obtain b s1 where g1: "Get_object bc s = Inr (b, s1)"
    by (auto split: sum.splits)
  from eq ok g1 obtain bg s2 where g2: "Get_index s1 = Inr (bg, s2)"
    by (auto split: sum.splits)
  from eq ok g1 g2 obtain c s3 where g3: "Get_index s2 = Inr (c, s3)"
    by (auto split: sum.splits)
  from eq ok g1 g2 g3 obtain children s4 where g4: "Get_bool s3 = Inr (children, s4)"
    by (auto split: sum.splits)
  from eq ok g1 g2 g3 g4 have
    "children \<Longrightarrow> \<exists>l s5 r.
        Deserialize cfg sc bc mem data (BinarySpaceTree_ctor cfg mem) s4 = Inr (l, s5)
        \<and> Deserialize cfg sc bc mem data (BinarySpaceTree_ctor cfg mem) s5 = Inr (r, s')
        \<and> set_children cfg sc data (Node b (left_m this) (right_m this) bg c (stat_m this))
              (Ptr l) (Ptr r) = Inr t"
    by (auto simp: Let_def split: sum.splits)
  moreover from eq ok g1 g2 g3 g4 have
    "\<not> children \<Longrightarrow> s' = s4
        \<and> set_children cfg sc data (Node b (left_m this) (right_m this) bg c (stat_m this))
              Null Null = Inr t"
    by (auto simp: Let_def split: sum.splits)
  ultimately show thesis using that ok g1 g2 g3 g4 by blast
qed

lemma Deserialize_fully_constructed:
  "Deserialize cfg sc bc mem data this s = Inr (t, s') \<Longrightarrow> fully_constructed t"
proof (induction cfg sc bc mem data this s arbitrary: t s' rule: Deserialize.induct)
  case (1 cfg sc bc mem data this s)
  from "1.prems" show ?case
  proof (cases rule: Deserialize_InrE)
    case (Read b s1 bg s2 c s3 children s4)
    show ?thesis
    proof (cases children)
      case False
      with Read(7) show ?thesis by (auto simp: set_children_none)
    next
      case True
      with Read(6) obtain l s5 r where
        d1: "Deserialize cfg sc bc mem data (BinarySpaceTree_ctor cfg mem) s4 = Inr (l, s5)"
        and d2: "Deserialize cfg sc bc mem data (BinarySpaceTree_ctor cfg mem) s5 = Inr (r, s')"
        and sc: "set_children cfg sc data (Node b (left_m this) (right_m this) bg c (stat_m this))
                (Ptr l) (Ptr r) = Inr t"
        by blast
      have "fully_constructed l"
        using "1.IH"(1) Read(1-5) True d1 by auto
      moreover have "fully_constructed r"
        using "1.IH"(2) Read(1-5) True d1 d2 by auto
      ultimately show ?thesis
        using sc by (auto simp: set_children_both split: if_splits)
    qed
  qed
qed

lemma Serialize_structural_stream:
  "fully_constructed t \<Longrightarrow> Serialize bc t s = Inr (s @ structural_stream bc t)"
  by (induction t arbitrary: s rule: fully_constructed_induct)
     (simp_all add: is_leaf_def Put_object_def Put_index_def Put_bool_def)

lemma Serialize_ignores_stat:
  "Serialize bc (map_BinarySpaceTree id f t) s = Serialize bc t s"
proof (induction bc t s rule: Serialize.induct)
  case (1 bc b l r bg c st s)
  show ?case
  proof (cases l)
    case (Ptr ln)
    then show ?thesis
      using 1 by (cases r) (auto simp: is_leaf_def Let_def split: sum.splits)
  qed (simp_all add: is_leaf_def Let_def)
qed

lemma bottom_up_range:
  "begin_m (bottom_up sc data t) = begin_m t \<and> count_m (bottom_up sc data t) = count_m t"
  by (induction sc data t rule: bottom_up.induct) (simp_all add: Let_def)

lemma bottom_up_shape: "fully_constructed t \<Longrightarrow> shape (bottom_up sc data t) = shape t"
  by (induction t rule: fully_constructed_induct) (simp_all add: shape_def Let_def)

lemma bottom_up_from_shape: "bottom_up sc data (shape t) = bottom_up sc data t"
proof (induction sc data t rule: bottom_up.induct)
  case (1 sc data b l r bg c st)
  then show ?case by (simp add: shape_def Let_def)
qed (simp_all add: shape_def)

lemma Get_object_reads_back:
  "reads_back cap \<Longrightarrow> Get_object cap (encode cap v @ rest) = Inr (v, rest)"
  by (simp add: reads_back_def Get_object_def)

lemma raw_codec_reads_back: "reads_back raw_codec"
  by (simp add: reads_back_def raw_codec_def raw_decode_def)

text \<open>
  Decoding the structural stream of a valid tree, node by node: the children are decoded
  into newly constructed nodes, whose begin is the sentinel in a debug build, and the
  contiguity assertions of \<open>set_children\<close> hold since the tree is valid.
\<close>

lemma Deserialize_structural_stream:
  "valid t \<Longrightarrow> reads_back bc \<Longrightarrow> DEBUG cfg \<longrightarrow> begin_m this = BIG_BAD_NUMBER cfg \<Longrightarrow>
   Deserialize cfg sc bc mem data this (structural_stream bc t @ rest)
     = Inr (bottom_up sc data t, rest)"
proof (induction t arbitrary: this rest rule: valid_induct)
  case (Leaf b bg c st)
  then show ?case
    by (simp add: Deserialize.simps[of _ _ _ _ _ _ "encode bc b @ _"] Get_object_reads_back
        Get_index_def Get_bool_def set_children_none)
next
  case (Internal b l r bg c st)
  have fresh: "DEBUG cfg \<longrightarrow> begin_m (BinarySpaceTree_ctor cfg mem) = BIG_BAD_NUMBER cfg"
    by (simp add: BinarySpaceTree_ctor_def)
  have dl: "Deserialize cfg sc bc mem data (BinarySpaceTree_ctor cfg mem)
              (structural_stream bc l @ structural_stream bc r @ rest)
            = Inr (bottom_up sc data l, structural_stream bc r @ rest)"
    using Internal.IH(1)[OF Internal.prems(1) fresh] .
  have dr: "Deserialize cfg sc bc mem data (BinarySpaceTree_ctor cfg mem)
              (structural_stream bc r @ rest)
            = Inr (bottom_up sc data r, rest)"
    using Internal.IH(2)[OF Internal.prems(1) fresh] .
  show ?case
    using Internal.prems Internal.hyps(3-5) dl dr
    by (simp add: Deserialize.simps[of _ _ _ _ _ this "encode bc b @ _"] Get_object_reads_back
        Get_index_def Get_bool_def set_children_both bottom_up_range Let_def)
qed

subsection \<open>Lookup\<close>

text \<open>
  C1. Called on a node with that node's own begin and count, \<open>FindByBeginCount\<close> returns
  the node itself. Both debug assertions hold of the node's own range and the first test
  succeeds, so this holds of every node of every tree, in either build and for either
  overload.
\<close>

theorem FindByBeginCount_identity:
  "FindByBeginCount_const cfg n (begin_m n) (count_m n) = Inr (Some n)
   \<and> FindByBeginCount cfg n (begin_m n) (count_m n) = Inr (Some n)"
  by (cases n) simp

theorem FindByBeginCount_identity_witness:
  "FindByBeginCount_const cfg_debug root08 0 8 = Inr (Some root08)
   \<and> FindByBeginCount cfg_debug root08 0 8 = Inr (Some root08)"
  using FindByBeginCount_identity[of cfg_debug root08]
  by (simp add: root08_def)

text \<open>
  C2, as the claim states it, fails in a debug build: the range assertions are checked again
  at every node of the descent, and a query inside the root's range need not be inside the
  range of the child the descent takes. In the tree \<open>root08\<close> the query \<open>(1, 6)\<close>
  satisfies the precondition at the root and matches no node; the descent goes left, where
  \<open>6 <= 4\<close> is asserted.
\<close>

theorem FindByBeginCount_unaligned_counterexample:
  "valid root08 \<and> begin_m root08 <=s 1 \<and> 6 <=s count_m root08
   \<and> filter (has_range 1 6) (nodes root08) = []
   \<and> FindByBeginCount_const cfg_debug root08 1 6 = Inl AssertionFailed"
  by (simp add: root08_def leaf04_def leaf44_def has_range_def cfg_debug_def is_leaf_def
      word_sle_eq word_sless_alt)

text \<open>
  C2, amended. In a valid tree, for a query that satisfies the precondition at the node the
  search starts from and is the range of no node, the lookup follows the descent (one binary
  decision per level, down to a leaf) and never returns a node. With the assertions compiled
  out it returns \<open>NULL\<close> at the leaf. With the assertions enabled it returns \<open>NULL\<close>
  at the leaf if the query satisfies both assertions at every node of the descent, and
  fails an assertion otherwise.
\<close>

theorem FindByBeginCount_unaligned:
  assumes "valid t"
    and "begin_m t <=s begin_q" and "count_q <=s count_m t"
    and "\<forall>n \<in> set (nodes t). \<not> has_range begin_q count_q n"
  shows "FindByBeginCount_const cfg t begin_q count_q
           = (if DEBUG cfg \<and> \<not> list_all (asserted begin_q count_q) (descent t begin_q)
              then Inl AssertionFailed else Inr None)
         \<and> find (has_range begin_q count_q) (descent t begin_q) = None
         \<and> is_leaf (last (descent t begin_q))"
proof -
  have fc: "fully_constructed t"
    using assms(1) by (rule valid_fully_constructed)
  have absent: "find (has_range begin_q count_q) (descent t begin_q) = None"
    using assms(4) by (rule find_absent)
  show ?thesis
    using FindByBeginCount_const_absent[OF fc absent] absent descent_last_leaf[OF fc]
    by simp
qed

theorem FindByBeginCount_unaligned_witness:
  "valid root08 \<and> begin_m root08 <=s 1 \<and> 6 <=s count_m root08
   \<and> filter (has_range 1 6) (nodes root08) = []
   \<and> descent root08 1 = [root08, leaf04] \<and> is_leaf leaf04
   \<and> FindByBeginCount_const cfg_release root08 1 6 = Inr None
   \<and> filter (has_range 5 3) (nodes root08) = []
   \<and> descent root08 5 = [root08, leaf44] \<and> is_leaf leaf44
   \<and> FindByBeginCount_const cfg_debug root08 5 3 = Inr None"
  using FindByBeginCount_unaligned[of root08 1 6 cfg_release]
    FindByBeginCount_unaligned[of root08 5 3 cfg_debug]
  by (simp add: root08_def leaf04_def leaf44_def has_range_def asserted_def cfg_release_def
      cfg_debug_def is_leaf_def word_sle_eq word_sless_alt)

text \<open>
  C9. Whenever \<open>FindByBeginCount\<close> returns a node, it is a node of the tree searched whose
  begin and count are the queried ones. The read-only and the mutable overload return the
  same result on every input.
\<close>

theorem FindByBeginCount_returns_queried_range:
  "(FindByBeginCount_const cfg t begin_q count_q = Inr (Some n) \<longrightarrow>
      begin_m n = begin_q \<and> count_m n = count_q \<and> n \<in> set (nodes t))
   \<and> (FindByBeginCount cfg t begin_q count_q = Inr (Some n) \<longrightarrow>
      begin_m n = begin_q \<and> count_m n = count_q \<and> n \<in> set (nodes t))
   \<and> FindByBeginCount cfg t begin_q count_q = FindByBeginCount_const cfg t begin_q count_q"
  using FindByBeginCount_const_sound[of cfg t begin_q count_q n]
  by (simp add: FindByBeginCount_same has_range_def)

theorem FindByBeginCount_returns_queried_range_witness:
  "FindByBeginCount_const cfg_debug root08 4 4 = Inr (Some leaf44)
   \<and> FindByBeginCount cfg_debug root08 4 4 = Inr (Some leaf44)
   \<and> begin_m leaf44 = 4 \<and> count_m leaf44 = 4 \<and> leaf44 \<in> set (nodes root08)"
  using FindByBeginCount_returns_queried_range[of cfg_debug root08 4 4 leaf44]
  by (simp add: root08_def leaf04_def leaf44_def cfg_debug_def is_leaf_def
      word_sle_eq word_sless_alt)

subsection \<open>Construction\<close>

text \<open>
  C4. \<open>set_children\<close> with both children present: a debug build asserts the three
  contiguity conditions, and the node gets the two children and the statistic that the
  combine form computes from the node's range and the statistics of the two children.
  With both children absent no assertion is made, and the node gets the statistic that the
  base form computes from the node's own range of the dataset. Bound, begin and count are
  kept in both cases. The sums in the assertions are sums of \<open>index_t\<close>: they wrap
  around, so a count of \<open>-2147483648\<close> passes for children that count \<open>2147483647\<close>
  and \<open>1\<close>.
\<close>

theorem set_children_statistic:
  "set_children cfg sc data this (Ptr l) (Ptr r) =
     (if DEBUG cfg \<and> \<not> (count_m this = count_m l + count_m r \<and> begin_m l = begin_m this
                          \<and> begin_m r = begin_m this + count_m l)
      then Inl AssertionFailed
      else Inr (Node (bound_m this) (Ptr l) (Ptr r) (begin_m this) (count_m this)
                  (initFromChildren sc data (begin_m this) (count_m this) (stat_m l) (stat_m r))))
   \<and> set_children cfg sc data this Null Null =
       Inr (Node (bound_m this) Null Null (begin_m this) (count_m this)
              (initFromRange sc data (begin_m this) (count_m this)))"
  by (simp add: set_children_both set_children_none)

theorem set_children_statistic_witness:
  "set_children cfg_debug point_count () ranged08 (Ptr leaf04) (Ptr leaf44) = Inr root08
   \<and> set_children cfg_debug point_count () ranged08 (Ptr leaf44) (Ptr leaf04) = Inl AssertionFailed
   \<and> set_children cfg_debug point_count () (Node 2 Poison Poison 4 4 0) Null Null = Inr leaf44
   \<and> set_children cfg_debug point_count () (Node 0 Poison Poison 0 (- 2147483648) 0)
         (Ptr most) (Ptr last1)
       = Inr (Node 0 (Ptr most) (Ptr last1) 0 (- 2147483648) 2147483648)"
  using set_children_statistic[of cfg_debug point_count "()" ranged08 leaf04 leaf44]
    set_children_statistic[of cfg_debug point_count "()" ranged08 leaf44 leaf04]
    set_children_statistic[of cfg_debug point_count "()" "Node 2 Poison Poison 4 4 0" leaf04 leaf44]
    set_children_statistic[of cfg_debug point_count "()"
      "Node 0 Poison Poison 0 (- 2147483648) 0" most last1]
  by (simp add: cfg_debug_def point_count_def ranged08_def root08_def leaf04_def leaf44_def
      most_def last1_def)

text \<open>
  C5, as the claim states it, fails for \<open>set_children\<close>: the only test of the children is
  \<open>is_leaf\<close>, which looks at the left pointer alone. Called with the left child absent
  and the right child present, also in a debug build, it stores both pointers, computes the
  statistic by the base form and returns, leaving a node with a right child only.
\<close>

theorem set_children_right_only_counterexample:
  "set_children cfg_debug point_count () ranged08 Null (Ptr leaf44) = Inr lopsided08
   \<and> \<not> fully_constructed lopsided08"
  by (simp add: set_children_none cfg_debug_def point_count_def ranged08_def lopsided08_def)

text \<open>
  C5, amended. In a debug build, \<open>Init\<close> on a node and \<open>Deserialize\<close> into a node whose
  begin is no longer the sentinel \<open>BIG_BAD_NUMBER\<close> fail their assertion, whatever the
  other arguments are. In a debug build, \<open>set_children\<close> with the left child present and
  the right child absent does not return a node: it fails on the null right pointer. In a
  release build that call fails only if the combine form of the Statistic reads the
  statistic of the right child; otherwise it returns the node with a left child only and the
  statistic that the combine form computed. In every build, \<open>set_children\<close> with the left
  child absent and the right child present is not detected: it returns the node with a
  right child only and the statistic of the base form.
\<close>

theorem contract_violations_detected:
  "(DEBUG cfg \<longrightarrow> begin_m this \<noteq> BIG_BAD_NUMBER cfg \<longrightarrow>
      Init cfg this begin_in count_in = Inl AssertionFailed
      \<and> Deserialize cfg sc bc mem data this s = Inl AssertionFailed)
   \<and> (DEBUG cfg \<longrightarrow> set_children cfg sc data this (Ptr l) Null = Inl BadPointer)
   \<and> (\<not> DEBUG cfg \<longrightarrow>
        set_children cfg sc data this (Ptr l) Null =
          (case initFromDangling sc data (begin_m this) (count_m this) (Some (stat_m l)) None of
             None \<Rightarrow> Inl BadPointer
           | Some st \<Rightarrow>
               Inr (Node (bound_m this) (Ptr l) Null (begin_m this) (count_m this) st)))
   \<and> set_children cfg sc data this Null (Ptr r) =
       Inr (Node (bound_m this) Null (Ptr r) (begin_m this) (count_m this)
              (initFromRange sc data (begin_m this) (count_m this)))"
  by (simp add: Init_def Deserialize.simps[of cfg sc bc mem data this s] set_children_left_only
      set_children_none split: option.splits)

theorem contract_violations_detected_witness:
  "DEBUG cfg_debug
   \<and> Init cfg_debug (BinarySpaceTree_ctor cfg_debug storage) 0 8 = Inr ranged08
   \<and> begin_m ranged08 \<noteq> BIG_BAD_NUMBER cfg_debug
   \<and> Init cfg_debug ranged08 0 8 = Inl AssertionFailed
   \<and> Deserialize cfg_debug point_count raw_codec storage () ranged08 [Raw 0, Index 0, Index 8, Flag False]
       = Inl AssertionFailed
   \<and> set_children cfg_debug point_count () ranged08 (Ptr leaf04) Null = Inl BadPointer
   \<and> set_children cfg_debug EmptyStatistic () bare08 (Ptr bare04) Null = Inl BadPointer
   \<and> \<not> DEBUG cfg_release
   \<and> set_children cfg_release point_count () ranged08 (Ptr leaf04) Null = Inl BadPointer
   \<and> set_children cfg_release EmptyStatistic () bare08 (Ptr bare04) Null
       = Inr (Node 0 (Ptr bare04) Null 0 8 ())
   \<and> set_children cfg_release point_count () ranged08 Null (Ptr leaf44) = Inr lopsided08"
  using contract_violations_detected[of cfg_debug ranged08 0 8 point_count raw_codec storage "()"
      "[Raw 0, Index 0, Index 8, Flag False]" leaf04 leaf44]
    contract_violations_detected[of cfg_debug bare08 0 8 EmptyStatistic raw_codec bare08 "()"
      "[]" bare04 bare04]
    contract_violations_detected[of cfg_release ranged08 0 8 point_count raw_codec storage "()"
      "[]" leaf04 leaf44]
    contract_violations_detected[of cfg_release bare08 0 8 EmptyStatistic raw_codec bare08 "()"
      "[]" bare04 bare04]
  by (simp add: Init_def BinarySpaceTree_ctor_def DEBUG_POISON_PTR_def cfg_debug_def
      cfg_release_def point_count_def EmptyStatistic_def storage_def ranged08_def
      lopsided08_def bare08_def)

text \<open>
  C8, as the claim states it, fails: \<open>Init\<close> followed by \<open>set_children\<close> with a right
  child only gives a node with exactly one child present, which \<open>is_leaf\<close> reports as a
  leaf.
\<close>

theorem one_child_reachable_counterexample:
  "Init cfg_debug (BinarySpaceTree_ctor cfg_debug storage) 0 8 = Inr ranged08
   \<and> set_children cfg_debug point_count () ranged08 Null (Ptr leaf44) = Inr lopsided08
   \<and> is_leaf lopsided08 \<and> left_m lopsided08 = Null \<and> right_m lopsided08 = Ptr leaf44"
  by (simp add: Init_def BinarySpaceTree_ctor_def DEBUG_POISON_PTR_def set_children_none
      is_leaf_def cfg_debug_def point_count_def storage_def ranged08_def lopsided08_def)

text \<open>
  C8, amended. \<open>is_leaf\<close> is true if and only if the left child is absent. Every tree that
  \<open>Deserialize\<close> returns is fully constructed, and so is the node that \<open>set_children\<close>
  returns when it is called with no child or with two fully constructed children. In a fully
  constructed tree every node has both children or none, and there \<open>is_leaf\<close> is true if
  and only if both children are absent. In every build and for every node and right child,
  \<open>set_children\<close> called with the left child absent and the right child present returns
  a node with exactly that one child, which \<open>is_leaf\<close> reports as a leaf.
\<close>

theorem is_leaf_both_absent:
  "(is_leaf n \<longleftrightarrow> left_m n = Null)
   \<and> (Deserialize cfg sc bc mem data this s = Inr (t, s') \<longrightarrow> fully_constructed t)
   \<and> (set_children cfg sc data this Null Null = Inr t \<longrightarrow> fully_constructed t)
   \<and> (fully_constructed l \<longrightarrow> fully_constructed r \<longrightarrow>
        set_children cfg sc data this (Ptr l) (Ptr r) = Inr t \<longrightarrow> fully_constructed t)
   \<and> (fully_constructed t \<longrightarrow> n \<in> set (nodes t) \<longrightarrow>
        (is_leaf n \<longleftrightarrow> left_m n = Null \<and> right_m n = Null)
        \<and> ((left_m n = Null \<and> right_m n = Null)
            \<or> (\<exists>l' r'. left_m n = Ptr l' \<and> right_m n = Ptr r')))
   \<and> (\<exists>t'. set_children cfg sc data this Null (Ptr child) = Inr t'
             \<and> left_m t' = Null \<and> right_m t' = Ptr child \<and> is_leaf t'
             \<and> \<not> fully_constructed t')"
proof -
  have "fully_constructed t \<Longrightarrow> n \<in> set (nodes t) \<Longrightarrow>
        (is_leaf n \<longleftrightarrow> left_m n = Null \<and> right_m n = Null)
        \<and> ((left_m n = Null \<and> right_m n = Null)
            \<or> (\<exists>l' r'. left_m n = Ptr l' \<and> right_m n = Ptr r'))"
    using fully_constructed_children[OF fully_constructed_nodes, of t n]
    by (auto simp: is_leaf_def)
  moreover have "set_children cfg sc data this Null Null = Inr t \<Longrightarrow> fully_constructed t"
    by (auto simp: set_children_none)
  moreover have "fully_constructed l \<Longrightarrow> fully_constructed r \<Longrightarrow>
        set_children cfg sc data this (Ptr l) (Ptr r) = Inr t \<Longrightarrow> fully_constructed t"
    by (auto simp: set_children_both split: if_splits)
  moreover have "\<exists>t'. set_children cfg sc data this Null (Ptr child) = Inr t'
             \<and> left_m t' = Null \<and> right_m t' = Ptr child \<and> is_leaf t'
             \<and> \<not> fully_constructed t'"
    by (simp add: set_children_none is_leaf_def)
  ultimately show ?thesis
    using Deserialize_fully_constructed[of cfg sc bc mem data this s t s']
    by (auto simp: is_leaf_def)
qed

theorem is_leaf_both_absent_witness:
  "Deserialize cfg_debug point_count raw_codec storage () (BinarySpaceTree_ctor cfg_debug storage)
       [Raw 2, Index 4, Index 4, Flag False] = Inr (leaf44, [])
   \<and> set_children cfg_debug point_count () (Node 1 Poison Poison 0 4 0) Null Null = Inr leaf04
   \<and> fully_constructed leaf04 \<and> fully_constructed leaf44
   \<and> set_children cfg_debug point_count () ranged08 (Ptr leaf04) (Ptr leaf44) = Inr root08
   \<and> fully_constructed root08 \<and> leaf44 \<in> set (nodes root08)
   \<and> is_leaf leaf44 \<and> left_m leaf44 = Null \<and> right_m leaf44 = Null
   \<and> set_children cfg_release point_count () ranged08 Null (Ptr leaf44) = Inr lopsided08
   \<and> is_leaf lopsided08 \<and> right_m lopsided08 = Ptr leaf44"
proof -
  have v: "valid leaf44"
    by (simp add: leaf44_def)
  have u: "DEBUG cfg_debug \<longrightarrow>
      begin_m (BinarySpaceTree_ctor cfg_debug storage) = BIG_BAD_NUMBER cfg_debug"
    by (simp add: BinarySpaceTree_ctor_def cfg_debug_def)
  have d: "Deserialize cfg_debug point_count raw_codec storage ()
       (BinarySpaceTree_ctor cfg_debug storage) [Raw 2, Index 4, Index 4, Flag False]
       = Inr (leaf44, [])"
    using Deserialize_structural_stream[OF v raw_codec_reads_back u, of point_count storage "()" "[]"]
    by (simp add: raw_codec_def leaf44_def point_count_def)
  have n: "set_children cfg_debug point_count () (Node 1 Poison Poison 0 4 0) Null Null = Inr leaf04"
    by (simp add: set_children_none point_count_def leaf04_def)
  have b: "set_children cfg_debug point_count () ranged08 (Ptr leaf04) (Ptr leaf44) = Inr root08"
    by (simp add: set_children_both cfg_debug_def point_count_def ranged08_def root08_def
        leaf04_def leaf44_def)
  have m: "leaf44 \<in> set (nodes root08)"
    by (simp add: root08_def leaf04_def leaf44_def)
  have a: "left_m leaf44 = Null \<and> right_m leaf44 = Null"
    by (simp add: leaf44_def)
  have o: "set_children cfg_release point_count () ranged08 Null (Ptr leaf44) = Inr lopsided08"
    by (simp add: set_children_none point_count_def ranged08_def lopsided08_def)
  show ?thesis
    using d n b m a o
      is_leaf_both_absent[of leaf44 cfg_debug point_count raw_codec storage "()"
        "BinarySpaceTree_ctor cfg_debug storage" "[Raw 2, Index 4, Index 4, Flag False]"
        leaf44 "[]" leaf04 leaf44 leaf44]
      is_leaf_both_absent[of leaf44 cfg_debug point_count raw_codec storage "()"
        "Node 1 Poison Poison 0 4 0" "[]" leaf04 "[]" leaf04 leaf44 leaf44]
      is_leaf_both_absent[of leaf44 cfg_debug point_count raw_codec storage "()"
        ranged08 "[]" root08 "[]" leaf04 leaf44 leaf44]
      is_leaf_both_absent[of leaf44 cfg_release point_count raw_codec storage "()"
        ranged08 "[]" root08 "[]" leaf04 leaf44 leaf44]
    by auto
qed

text \<open>
  C10, as the claim states it, fails in a debug build: \<open>Init\<close> also poisons the two child
  pointers. A node on which \<open>set_children\<close> was called before \<open>Init\<close> still has the
  sentinel as its begin, so the assertion of \<open>Init\<close> holds, and its null child pointers
  are overwritten.
\<close>

theorem Init_frame_counterexample:
  "set_children cfg_debug point_count () (BinarySpaceTree_ctor cfg_debug storage) Null Null
     = Inr unranged_leaf
   \<and> left_m unranged_leaf = Null \<and> right_m unranged_leaf = Null
   \<and> Init cfg_debug unranged_leaf 0 4 = Inr (Node 0 Poison Poison 0 4 2146666666)"
  by (simp add: Init_def BinarySpaceTree_ctor_def DEBUG_POISON_PTR_def set_children_none
      cfg_debug_def point_count_def storage_def unranged_leaf_def)

text \<open>
  C10, amended. \<open>Init\<close> returns one node, the node it is called on with begin and count
  set to the arguments; bound and statistic are unchanged. The two child pointers are
  unchanged in a release build and poisoned in a debug build.
\<close>

theorem Init_frame:
  "Init cfg this begin_in count_in = Inr this' \<Longrightarrow>
   bound_m this' = bound_m this \<and> stat_m this' = stat_m this
   \<and> begin_m this' = begin_in \<and> count_m this' = count_in
   \<and> left_m this' = (if DEBUG cfg then Poison else left_m this)
   \<and> right_m this' = (if DEBUG cfg then Poison else right_m this)"
  by (auto simp: Init_def DEBUG_POISON_PTR_def split: if_splits)

theorem Init_frame_witness:
  "Init cfg_debug (BinarySpaceTree_ctor cfg_debug storage) 0 8 = Inr ranged08
   \<and> bound_m ranged08 = bound_m storage \<and> stat_m ranged08 = stat_m storage
   \<and> begin_m ranged08 = 0 \<and> count_m ranged08 = 8
   \<and> Init cfg_release storage 0 8 = Inr (Node 0 Null Null 0 8 0)"
  using Init_frame[of cfg_debug "BinarySpaceTree_ctor cfg_debug storage" 0 8 ranged08]
    Init_frame[of cfg_release storage 0 8 "Node 0 Null Null 0 8 0"]
  by (simp add: Init_def BinarySpaceTree_ctor_def DEBUG_POISON_PTR_def cfg_debug_def
      cfg_release_def storage_def ranged08_def)

subsection \<open>Serialization\<close>

text \<open>
  C6. On a fully constructed tree \<open>Serialize\<close> appends, per node and in this order, the
  bound, begin, count and the has-children flag and, when the flag is set, the encoding of
  the left and then of the right subtree. The statistics are not written: trees that differ
  in their statistics only are serialized alike. \<open>SerializeAll\<close> appends the format tag,
  then the dataset, then the structural encoding.
\<close>

theorem Serialize_stream_layout:
  "(fully_constructed t \<longrightarrow>
      Serialize bc t s = Inr (s @ structural_stream bc t)
      \<and> SerializeAll mg dc bc data t s
          = Inr (s @ [Magic (format_tag mg)] @ encode dc data @ structural_stream bc t))
   \<and> Serialize bc (map_BinarySpaceTree id f t) s = Serialize bc t s
   \<and> SerializeAll mg dc bc data (map_BinarySpaceTree id f t) s = SerializeAll mg dc bc data t s"
  by (simp add: Serialize_structural_stream Serialize_ignores_stat SerializeAll_def
      PutMagic_def Put_object_def)

theorem Serialize_stream_layout_witness:
  "fully_constructed root08
   \<and> Serialize raw_codec root08 []
       = Inr [Raw 0, Index 0, Index 8, Flag True,
              Raw 1, Index 0, Index 4, Flag False,
              Raw 2, Index 4, Index 4, Flag False]
   \<and> SerializeAll tags raw_codec raw_codec 7 root08 []
       = Inr [Magic 111, Raw 7,
              Raw 0, Index 0, Index 8, Flag True,
              Raw 1, Index 0, Index 4, Flag False,
              Raw 2, Index 4, Index 4, Flag False]"
  using Serialize_stream_layout[of root08 raw_codec "[]" tags raw_codec 7 id]
  by (simp add: raw_codec_def tags_def format_tag_def root08_def leaf04_def leaf44_def)

text \<open>
  C3. For a valid tree and a bound decoder that reads back what the bound encoder wrote,
  \<open>Deserialize\<close> applied to the stream that \<open>Serialize\<close> produced (followed by anything)
  returns, in either build and into any uninitialized node, the tree \<open>bottom_up\<close> and
  leaves the rest of the stream unread. That tree has the original's bound, begin, count and
  children structure at every node; its statistics are those of the bottom-up construction
  from the dataset and do not depend on the statistics of the original.
\<close>

theorem Serialize_Deserialize_roundtrip:
  assumes "valid t" and "reads_back bc"
    and "DEBUG cfg \<longrightarrow> begin_m this = BIG_BAD_NUMBER cfg"
  shows "Serialize bc t [] = Inr (structural_stream bc t)
         \<and> Deserialize cfg sc bc mem data this (structural_stream bc t @ rest)
             = Inr (bottom_up sc data t, rest)
         \<and> shape (bottom_up sc data t) = shape t
         \<and> bottom_up sc data t = bottom_up sc data (shape t)"
proof -
  have fc: "fully_constructed t"
    using assms(1) by (rule valid_fully_constructed)
  show ?thesis
    using Serialize_structural_stream[OF fc, of bc "[]"]
      Deserialize_structural_stream[OF assms, of sc mem data rest]
      bottom_up_shape[OF fc, of sc data] bottom_up_from_shape[of sc data t]
    by simp
qed

theorem Serialize_Deserialize_roundtrip_witness:
  "valid stale08 \<and> reads_back (raw_codec :: (nat, nat) Serializable)
   \<and> begin_m (BinarySpaceTree_ctor cfg_debug storage) = BIG_BAD_NUMBER cfg_debug
   \<and> Serialize raw_codec stale08 []
     = Inr [Raw 0, Index 0, Index 8, Flag True,
            Raw 1, Index 0, Index 4, Flag False,
            Raw 2, Index 4, Index 4, Flag False]
   \<and> Deserialize cfg_debug point_count raw_codec storage ()
        (BinarySpaceTree_ctor cfg_debug storage)
        [Raw 0, Index 0, Index 8, Flag True,
         Raw 1, Index 0, Index 4, Flag False,
         Raw 2, Index 4, Index 4, Flag False, Flag True]
       = Inr (root08, [Flag True])"
proof -
  have v: "valid stale08"
    by (simp add: stale08_def)
  have u: "begin_m (BinarySpaceTree_ctor cfg_debug storage) = BIG_BAD_NUMBER cfg_debug"
    by (simp add: BinarySpaceTree_ctor_def cfg_debug_def)
  then have u': "DEBUG cfg_debug \<longrightarrow>
      begin_m (BinarySpaceTree_ctor cfg_debug storage) = BIG_BAD_NUMBER cfg_debug"
    by simp
  have enc: "structural_stream raw_codec stale08
      = [Raw 0, Index 0, Index 8, Flag True,
         Raw 1, Index 0, Index 4, Flag False,
         Raw 2, Index 4, Index 4, Flag False]"
    by (simp add: raw_codec_def stale08_def)
  have rebuilt: "bottom_up point_count () stale08 = root08"
    by (simp add: point_count_def stale08_def root08_def leaf04_def leaf44_def)
  show ?thesis
    using Serialize_Deserialize_roundtrip[OF v raw_codec_reads_back u',
        of point_count storage "()" "[Flag True]"] v u raw_codec_reads_back
    by (simp add: enc rebuilt)
qed

text \<open>
  C7. \<open>DeserializeAll\<close> checks the format tag first. If the stored tag differs from the
  expected one (the sum of the tags of the format name, the Dataset type and the Bound type),
  the load fails with a format mismatch, whatever follows in the stream and whatever the
  dataset and bound decoders are: nothing further is read and no tree is returned. If the
  stored tag is the expected one, the dataset and then the tree are read from the rest.
\<close>

theorem DeserializeAll_checks_tag_first:
  "(m \<noteq> format_tag mg \<longrightarrow>
      DeserializeAll cfg mg sc dc bc mem this (Magic m # rest) = Inl FormatMismatch)
   \<and> DeserializeAll cfg mg sc dc bc mem this (Magic (format_tag mg) # rest) =
       (case Get_object dc rest of
          Inl e \<Rightarrow> Inl e
        | Inr (data, s2) \<Rightarrow>
            (case Deserialize cfg sc bc mem data this s2 of
               Inl e \<Rightarrow> Inl e
             | Inr (this', s3) \<Rightarrow> Inr (data, this', s3)))"
  by (simp add: DeserializeAll_def AssertMagic_def)

theorem DeserializeAll_checks_tag_first_witness:
  "format_tag tags = 111
   \<and> DeserializeAll cfg_debug tags point_count raw_codec raw_codec storage
        (BinarySpaceTree_ctor cfg_debug storage)
        [Magic 112, Raw 7, Raw 1, Index 0, Index 4, Flag False]
       = Inl FormatMismatch"
  using DeserializeAll_checks_tag_first[of 112 tags cfg_debug point_count raw_codec raw_codec
      storage "BinarySpaceTree_ctor cfg_debug storage"
      "[Raw 7, Raw 1, Index 0, Index 4, Flag False]"]
  by (simp add: tags_def format_tag_def)

end
